theory Spec2Isabelle
  imports Main "HOL-Library.Word"
begin

section \<open>The replicated command layer of the coordinator (coordinator/command.go)\<close>

text \<open>
  The file defines twelve command structs. Each has a \<open>CommandName\<close> method and an
  \<open>Apply\<close> method that takes the consensus engine's server handle, fetches the shared
  cluster configuration from the handle's context, calls one method on it and returns a
  pair \<open>(interface{}, error)\<close>. The peer-join command calls the server's \<open>AddPeer\<close>
  instead. An \<open>init\<close> function fills the table \<open>internalRaftCommands\<close>.

  The packages \<open>cluster\<close> and \<open>raft\<close> are imported by the file, not defined in it. Their
  types are type parameters of the model and their methods are the fields of the record
  \<open>externals\<close>: every theorem below holds for every implementation of them.
\<close>

subsection \<open>Payloads\<close>

text \<open>
  \<open>time.Time\<close> is only carried from the payload to the configuration store; it is modelled
  as a number of nanoseconds counted from the zero instant, so that the zero value of the
  struct is \<open>0\<close>.
\<close>

type_synonym Time = int

text \<open>
  A Go pointer (\<open>*cluster.DbUser\<close>, \<open>*cluster.ClusterAdmin\<close>, \<open>*cluster.ClusterServer\<close>,
  \<open>*cluster.NewShardData\<close>) is an \<open>option\<close>: \<open>None\<close> is the nil pointer. The
  constructors carry the struct fields in the order of their declaration.
\<close>

datatype ('user, 'admin, 'cs, 'nsd) command =
    SetContinuousQueryTimestampCommand Time
  | CreateContinuousQueryCommand string string
  | DeleteContinuousQueryCommand string "32 word"
  | DropDatabaseCommand string
  | CreateDatabaseCommand string "8 word"
  | SaveDbUserCommand "'user option"
  | ChangeDbUserPassword string string string
  | SaveClusterAdminCommand "'admin option"
  | AddPotentialServerCommand "'cs option"
  | InfluxJoinCommand string string string
  | CreateShardsCommand "'nsd option list"
  | DropShardCommand "32 word" "32 word list"

fun CommandName :: "('user, 'admin, 'cs, 'nsd) command \<Rightarrow> string" where
  "CommandName (SetContinuousQueryTimestampCommand ts) = ''set_cq_ts''"
| "CommandName (CreateContinuousQueryCommand db q) = ''create_cq''"
| "CommandName (DeleteContinuousQueryCommand db i) = ''delete_cq''"
| "CommandName (DropDatabaseCommand n) = ''drop_db''"
| "CommandName (CreateDatabaseCommand n rf) = ''create_db''"
| "CommandName (SaveDbUserCommand u) = ''save_db_user''"
| "CommandName (ChangeDbUserPassword db u h) = ''change_db_user_password''"
| "CommandName (SaveClusterAdminCommand u) = ''save_cluster_admin_user''"
| "CommandName (AddPotentialServerCommand sv) = ''add_server''"
| "CommandName (InfluxJoinCommand n cs pcs) = ''raft:join''"
| "CommandName (CreateShardsCommand shs) = ''create_shards''"
| "CommandName (DropShardCommand i ids) = ''drop_shard''"

text \<open>\<open>NodeName\<close> of the join command returns its \<open>Name\<close> field.\<close>

fun NodeName :: "('user, 'admin, 'cs, 'nsd) command \<Rightarrow> string option" where
  "NodeName (InfluxJoinCommand n cs pcs) = Some n"
| "NodeName _ = None"

fun is_join :: "('user, 'admin, 'cs, 'nsd) command \<Rightarrow> bool" where
  "is_join (InfluxJoinCommand n cs pcs) = True"
| "is_join _ = False"

subsection \<open>The registry built by \<open>init\<close>\<close>

text \<open>
  \<open>init\<close> ranges over a slice of eleven zero-valued command structs, in the order below,
  and stores each under its own name: \<open>internalRaftCommands[command.CommandName()] = command\<close>.
\<close>

definition init_commands :: "('user, 'admin, 'cs, 'nsd) command list" where
  "init_commands =
    [ AddPotentialServerCommand None,
      CreateDatabaseCommand [] 0,
      DropDatabaseCommand [],
      SaveDbUserCommand None,
      SaveClusterAdminCommand None,
      ChangeDbUserPassword [] [] [],
      CreateContinuousQueryCommand [] [],
      DeleteContinuousQueryCommand [] 0,
      SetContinuousQueryTimestampCommand 0,
      CreateShardsCommand [],
      DropShardCommand 0 [] ]"

definition internalRaftCommands ::
  "string \<rightharpoonup> ('user, 'admin, 'cs, 'nsd) command" where
  "internalRaftCommands =
     fold (\<lambda>command m. m(CommandName command \<mapsto> command)) init_commands Map.empty"

subsection \<open>The external collaborators\<close>

text \<open>
  The methods of \<open>*cluster.ClusterConfiguration\<close> that the commands call, the method
  \<open>ToNewShardData\<close> of \<open>*cluster.ShardData\<close>, the two fields of \<open>cluster.DbUser\<close> that
  the debug message reads, and \<open>AddPeer\<close> of \<open>raft.Server\<close>. A method that mutates its
  receiver takes the receiver's state last and returns the new state first. The source
  binds an error from every configuration method except \<open>SaveDbUser\<close>, \<open>SaveClusterAdmin\<close>
  and \<open>AddPotentialServer\<close>, which it calls as statements; \<open>AddShards\<close> returns two values.
  An \<open>error\<close> is \<open>'err option\<close>, with \<open>None\<close> for nil. The configuration's method
  \<open>ChangeDbUserPassword\<close> has the name of the command struct and is written
  \<open>ChangeDbUserPasswordM\<close>.
\<close>

record ('cfg, 'eng, 'user, 'admin, 'cs, 'nsd, 'sd, 'err) externals =
  SetContinuousQueryTimestamp :: "Time \<Rightarrow> 'cfg \<Rightarrow> 'cfg \<times> 'err option"
  CreateContinuousQuery :: "string \<Rightarrow> string \<Rightarrow> 'cfg \<Rightarrow> 'cfg \<times> 'err option"
  DeleteContinuousQuery :: "string \<Rightarrow> 32 word \<Rightarrow> 'cfg \<Rightarrow> 'cfg \<times> 'err option"
  DropDatabase :: "string \<Rightarrow> 'cfg \<Rightarrow> 'cfg \<times> 'err option"
  CreateDatabase :: "string \<Rightarrow> 8 word \<Rightarrow> 'cfg \<Rightarrow> 'cfg \<times> 'err option"
  SaveDbUser :: "'user option \<Rightarrow> 'cfg \<Rightarrow> 'cfg"
  ChangeDbUserPasswordM :: "string \<Rightarrow> string \<Rightarrow> string \<Rightarrow> 'cfg \<Rightarrow> 'cfg \<times> 'err option"
  SaveClusterAdmin :: "'admin option \<Rightarrow> 'cfg \<Rightarrow> 'cfg"
  AddPotentialServer :: "'cs option \<Rightarrow> 'cfg \<Rightarrow> 'cfg"
  AddShards :: "'nsd option list \<Rightarrow> 'cfg \<Rightarrow> 'cfg \<times> 'sd list \<times> 'err option"
  DropShard :: "32 word \<Rightarrow> 32 word list \<Rightarrow> 'cfg \<Rightarrow> 'cfg \<times> 'err option"
  ToNewShardData :: "'sd \<Rightarrow> 'nsd option"
  DbUser_Db :: "'user \<Rightarrow> string"
  DbUser_Name :: "'user \<Rightarrow> string"
  AddPeer :: "string \<Rightarrow> string \<Rightarrow> 'eng \<Rightarrow> 'eng \<times> 'err option"

subsection \<open>The server handle and what \<open>Apply\<close> returns\<close>

text \<open>
  What a command can reach through its \<open>raft.Server\<close> argument: the node's name, the
  context, and, as \<open>Engine\<close>, all the state of the consensus engine that \<open>AddPeer\<close>
  reads or writes. \<open>Context\<close> is \<open>Some config\<close>
  when \<open>server.Context()\<close> holds a \<open>*cluster.ClusterConfiguration\<close> and \<open>None\<close> when it
  holds anything else (nil included), where the type assertion of the source panics.
  \<open>DebugLog\<close> collects the calls of \<open>log.Debug\<close>, each as its format string and its
  arguments. The arguments are evaluated before the call, so reading \<open>c.User.Db\<close> through
  a nil \<open>User\<close> panics whatever the log level; they are taken from the payload as the
  command holds it.
\<close>

record ('cfg, 'eng) Server =
  Name :: string
  Context :: "'cfg option"
  Engine :: 'eng
  DebugLog :: "(string \<times> string list) list"

datatype panic = TypeAssertion | NilDereference

text \<open>The \<open>interface{}\<close> values that the source returns: nil, a byte slice, a slice of
  \<open>*cluster.NewShardData\<close>.\<close>

datatype 'nsd result = NilResult | Bytes string | Shards "'nsd option list"

datatype ('nsd, 'err) outcome = Return "'nsd result" "'err option" | Panic panic

text \<open>The first component of what was returned, if the call returned.\<close>

fun result_of :: "('nsd, 'err) outcome \<Rightarrow> 'nsd result option" where
  "result_of (Return r e) = Some r"
| "result_of (Panic p) = None"

text \<open>The loop of \<open>CreateShardsCommand.Apply\<close>: \<open>createdShardData\<close> starts empty and each
  created shard's \<open>ToNewShardData()\<close> is appended to it.\<close>

fun append_created ::
  "('sd \<Rightarrow> 'nsd option) \<Rightarrow> 'nsd option list \<Rightarrow> 'sd list \<Rightarrow> 'nsd option list" where
  "append_created f createdShardData [] = createdShardData"
| "append_created f createdShardData (s # createdShards) =
     append_created f (createdShardData @ [f s]) createdShards"

subsection \<open>Apply\<close>

fun Apply ::
  "('cfg, 'eng, 'user, 'admin, 'cs, 'nsd, 'sd, 'err) externals \<Rightarrow>
   ('user, 'admin, 'cs, 'nsd) command \<Rightarrow> ('cfg, 'eng) Server \<Rightarrow>
   ('cfg, 'eng) Server \<times> ('nsd, 'err) outcome" where
  "Apply X (SetContinuousQueryTimestampCommand ts) server =
     (case Context server of
        None \<Rightarrow> (server, Panic TypeAssertion)
      | Some config \<Rightarrow>
          (case SetContinuousQueryTimestamp X ts config of
             (config', err) \<Rightarrow> (server\<lparr>Context := Some config'\<rparr>, Return NilResult err)))"
| "Apply X (CreateContinuousQueryCommand db q) server =
     (case Context server of
        None \<Rightarrow> (server, Panic TypeAssertion)
      | Some config \<Rightarrow>
          (case CreateContinuousQuery X db q config of
             (config', err) \<Rightarrow> (server\<lparr>Context := Some config'\<rparr>, Return NilResult err)))"
| "Apply X (DeleteContinuousQueryCommand db i) server =
     (case Context server of
        None \<Rightarrow> (server, Panic TypeAssertion)
      | Some config \<Rightarrow>
          (case DeleteContinuousQuery X db i config of
             (config', err) \<Rightarrow> (server\<lparr>Context := Some config'\<rparr>, Return NilResult err)))"
| "Apply X (DropDatabaseCommand n) server =
     (case Context server of
        None \<Rightarrow> (server, Panic TypeAssertion)
      | Some config \<Rightarrow>
          (case DropDatabase X n config of
             (config', err) \<Rightarrow> (server\<lparr>Context := Some config'\<rparr>, Return NilResult err)))"
| "Apply X (CreateDatabaseCommand n rf) server =
     (case Context server of
        None \<Rightarrow> (server, Panic TypeAssertion)
      | Some config \<Rightarrow>
          (case CreateDatabase X n rf config of
             (config', err) \<Rightarrow> (server\<lparr>Context := Some config'\<rparr>, Return NilResult err)))"
| "Apply X (SaveDbUserCommand user) server =
     (case Context server of
        None \<Rightarrow> (server, Panic TypeAssertion)
      | Some config \<Rightarrow>
          (let server' = server\<lparr>Context := Some (SaveDbUser X user config)\<rparr> in
           case user of
             None \<Rightarrow> (server', Panic NilDereference)
           | Some u \<Rightarrow>
               (server'\<lparr>DebugLog := DebugLog server' @
                   [(''(raft:%s) Created user %s:%s'',
                     [Name server', DbUser_Db X u, DbUser_Name X u])]\<rparr>,
                Return NilResult None)))"
| "Apply X (ChangeDbUserPassword db username hash) server =
     (let server' = server\<lparr>DebugLog := DebugLog server @
             [(''(raft:%s) changing db user password for %s:%s'',
               [Name server, db, username])]\<rparr> in
      case Context server' of
        None \<Rightarrow> (server', Panic TypeAssertion)
      | Some config \<Rightarrow>
          (case ChangeDbUserPasswordM X db username hash config of
             (config', err) \<Rightarrow> (server'\<lparr>Context := Some config'\<rparr>, Return NilResult err)))"
| "Apply X (SaveClusterAdminCommand user) server =
     (case Context server of
        None \<Rightarrow> (server, Panic TypeAssertion)
      | Some config \<Rightarrow>
          (server\<lparr>Context := Some (SaveClusterAdmin X user config)\<rparr>, Return NilResult None))"
| "Apply X (AddPotentialServerCommand sv) server =
     (case Context server of
        None \<Rightarrow> (server, Panic TypeAssertion)
      | Some config \<Rightarrow>
          (server\<lparr>Context := Some (AddPotentialServer X sv config)\<rparr>, Return NilResult None))"
| "Apply X (InfluxJoinCommand n cs pcs) server =
     (case AddPeer X n cs (Engine server) of
        (engine', err) \<Rightarrow> (server\<lparr>Engine := engine'\<rparr>, Return (Bytes ''join'') err))"
| "Apply X (CreateShardsCommand shs) server =
     (case Context server of
        None \<Rightarrow> (server, Panic TypeAssertion)
      | Some config \<Rightarrow>
          (case AddShards X shs config of
             (config', createdShards, err) \<Rightarrow>
               (let server' = server\<lparr>Context := Some config'\<rparr> in
                case err of
                  Some e \<Rightarrow> (server', Return NilResult (Some e))
                | None \<Rightarrow>
                    (server',
                     Return (Shards (append_created (ToNewShardData X) [] createdShards)) None))))"
| "Apply X (DropShardCommand i ids) server =
     (case Context server of
        None \<Rightarrow> (server, Panic TypeAssertion)
      | Some config \<Rightarrow>
          (case DropShard X i ids config of
             (config', err) \<Rightarrow> (server\<lparr>Context := Some config'\<rparr>, Return NilResult err)))"

subsection \<open>The target mutation of each command, as the specification lists it\<close>

text \<open>
  The table of the data model pairs every command with one mutation of the configuration
  store, called with the command's payload fields; the peer-join command has none and
  leaves the configuration as it is. This definition follows that table, not the source.
\<close>

fun target_mutation ::
  "('cfg, 'eng, 'user, 'admin, 'cs, 'nsd, 'sd, 'err) externals \<Rightarrow>
   ('user, 'admin, 'cs, 'nsd) command \<Rightarrow> 'cfg \<Rightarrow> 'cfg" where
  "target_mutation X (CreateDatabaseCommand n rf) = (\<lambda>config. fst (CreateDatabase X n rf config))"
| "target_mutation X (DropDatabaseCommand n) = (\<lambda>config. fst (DropDatabase X n config))"
| "target_mutation X (SaveDbUserCommand u) = SaveDbUser X u"
| "target_mutation X (ChangeDbUserPassword db u h) =
     (\<lambda>config. fst (ChangeDbUserPasswordM X db u h config))"
| "target_mutation X (SaveClusterAdminCommand a) = SaveClusterAdmin X a"
| "target_mutation X (AddPotentialServerCommand sv) = AddPotentialServer X sv"
| "target_mutation X (CreateContinuousQueryCommand db q) =
     (\<lambda>config. fst (CreateContinuousQuery X db q config))"
| "target_mutation X (DeleteContinuousQueryCommand db i) =
     (\<lambda>config. fst (DeleteContinuousQuery X db i config))"
| "target_mutation X (SetContinuousQueryTimestampCommand ts) =
     (\<lambda>config. fst (SetContinuousQueryTimestamp X ts config))"
| "target_mutation X (CreateShardsCommand shs) = (\<lambda>config. fst (AddShards X shs config))"
| "target_mutation X (DropShardCommand i ids) = (\<lambda>config. fst (DropShard X i ids config))"
| "target_mutation X (InfluxJoinCommand n cs pcs) = (\<lambda>config. config)"

subsection \<open>A small configuration store and engine\<close>

text \<open>
  Modelled from the spec: the configuration store (package \<open>cluster\<close>) and the consensus
  engine (package \<open>raft\<close>) are not part of the command layer. This is a minimal
  implementation of the interface the specification lists for them, on which the
  theorems are run at concrete inputs: creating a database that exists and dropping one
  that does not are errors, a list of shards is added whole or not at all, and admitting
  a peer that is a member already fails. A user is its database and name, an
  administrator its name, a server its id, a shard its id and server ids.
\<close>

record sample_config =
  databases :: "(string \<times> 8 word) list"
  users :: "(string \<times> string \<times> string) list"
  admins :: "string list"
  servers :: "nat list"
  queries :: "(string \<times> string) list"
  timestamp :: Time
  shards :: "(32 word \<times> 32 word list) list"

definition sample_empty :: sample_config where
  "sample_empty =
     \<lparr>databases = [], users = [], admins = [], servers = [], queries = [],
      timestamp = 0, shards = []\<rparr>"

definition sample_CreateDatabase ::
  "string \<Rightarrow> 8 word \<Rightarrow> sample_config \<Rightarrow> sample_config \<times> string option" where
  "sample_CreateDatabase n rf c =
     (if n \<in> fst ` set (databases c) then (c, Some ''database already exists'')
      else (c\<lparr>databases := databases c @ [(n, rf)]\<rparr>, None))"

definition sample_DropDatabase ::
  "string \<Rightarrow> sample_config \<Rightarrow> sample_config \<times> string option" where
  "sample_DropDatabase n c =
     (if n \<in> fst ` set (databases c)
      then (c\<lparr>databases := filter (\<lambda>d. fst d \<noteq> n) (databases c),
              users := filter (\<lambda>u. fst u \<noteq> n) (users c)\<rparr>, None)
      else (c, Some ''database does not exist''))"

definition sample_ChangeDbUserPassword ::
  "string \<Rightarrow> string \<Rightarrow> string \<Rightarrow> sample_config \<Rightarrow> sample_config \<times> string option" where
  "sample_ChangeDbUserPassword db u h c =
     (if (db, u) \<in> (\<lambda>x. (fst x, fst (snd x))) ` set (users c)
      then (c\<lparr>users := map (\<lambda>x. if fst x = db \<and> fst (snd x) = u then (db, u, h) else x)
                          (users c)\<rparr>, None)
      else (c, Some ''invalid username''))"

definition sample_AddShards ::
  "(32 word \<times> 32 word list) option list \<Rightarrow> sample_config \<Rightarrow>
   sample_config \<times> (32 word \<times> 32 word list) list \<times> string option" where
  "sample_AddShards specs c =
     (case those specs of
        None \<Rightarrow> (c, [], Some ''nil shard'')
      | Some new \<Rightarrow> (c\<lparr>shards := shards c @ new\<rparr>, new, None))"

definition sample_DropShard ::
  "32 word \<Rightarrow> 32 word list \<Rightarrow> sample_config \<Rightarrow> sample_config \<times> string option" where
  "sample_DropShard i ids c =
     (if i \<in> fst ` set (shards c)
      then (c\<lparr>shards := map (\<lambda>sh. if fst sh = i
                                    then (i, filter (\<lambda>x. x \<notin> set ids) (snd sh)) else sh)
                           (shards c)\<rparr>, None)
      else (c, Some ''shard not found''))"

definition sample_AddPeer ::
  "string \<Rightarrow> string \<Rightarrow> string list \<Rightarrow> string list \<times> string option" where
  "sample_AddPeer n cs peers =
     (if n \<in> set peers then (peers, Some ''peer already exists'') else (peers @ [n], None))"

definition SampleStore ::
  "(sample_config, string list, string \<times> string, string, nat,
    32 word \<times> 32 word list, 32 word \<times> 32 word list, string) externals" where
  "SampleStore =
     \<lparr>SetContinuousQueryTimestamp = (\<lambda>ts c. (c\<lparr>timestamp := ts\<rparr>, None)),
      CreateContinuousQuery = (\<lambda>db q c. (c\<lparr>queries := queries c @ [(db, q)]\<rparr>, None)),
      DeleteContinuousQuery =
        (\<lambda>db i c. if unat i < length (queries c)
                   then (c\<lparr>queries := take (unat i) (queries c) @ drop (Suc (unat i)) (queries c)\<rparr>,
                         None)
                   else (c, Some ''no such query'')),
      DropDatabase = sample_DropDatabase,
      CreateDatabase = sample_CreateDatabase,
      SaveDbUser =
        (\<lambda>u c. case u of None \<Rightarrow> c
                | Some (db, n) \<Rightarrow> c\<lparr>users := users c @ [(db, n, [])]\<rparr>),
      ChangeDbUserPasswordM = sample_ChangeDbUserPassword,
      SaveClusterAdmin = (\<lambda>a c. case a of None \<Rightarrow> c | Some n \<Rightarrow> c\<lparr>admins := admins c @ [n]\<rparr>),
      AddPotentialServer =
        (\<lambda>sv c. case sv of None \<Rightarrow> c | Some i \<Rightarrow> c\<lparr>servers := servers c @ [i]\<rparr>),
      AddShards = sample_AddShards,
      DropShard = sample_DropShard,
      ToNewShardData = Some,
      DbUser_Db = fst,
      DbUser_Name = snd,
      AddPeer = sample_AddPeer\<rparr>"

definition sample_all_or_none ::
  "sample_config \<Rightarrow> (32 word \<times> 32 word list) option list \<Rightarrow> sample_config \<Rightarrow> bool" where
  "sample_all_or_none c specs c' \<longleftrightarrow>
     length (shards c') = length (shards c) \<or>
     length (shards c') = length (shards c) + length specs"

definition sample_server :: "(sample_config, string list) Server" where
  "sample_server =
     \<lparr>Name = ''node1'', Context = Some sample_empty, Engine = [''node1''], DebugLog = []\<rparr>"

section \<open>The loop of shard creation\<close>

lemma append_created_map: "append_created f acc xs = acc @ map f xs"
  by (induction xs arbitrary: acc) simp_all

section \<open>Command names\<close>

text \<open>
  C2. Each of the twelve command types returns its own literal from \<open>CommandName\<close>,
  whatever its payload: \<open>create_db\<close>, \<open>drop_db\<close>, \<open>save_db_user\<close>,
  \<open>change_db_user_password\<close>, \<open>save_cluster_admin_user\<close>, \<open>add_server\<close>, \<open>create_cq\<close>,
  \<open>delete_cq\<close>, \<open>set_cq_ts\<close>, \<open>create_shards\<close>, \<open>drop_shard\<close>, \<open>raft:join\<close>; and the
  twelve names are pairwise distinct.
\<close>

theorem CommandName_literals:
  "CommandName (CreateDatabaseCommand n1 rf) = ''create_db'' \<and>
   CommandName (DropDatabaseCommand n2) = ''drop_db'' \<and>
   CommandName (SaveDbUserCommand u) = ''save_db_user'' \<and>
   CommandName (ChangeDbUserPassword db1 un h) = ''change_db_user_password'' \<and>
   CommandName (SaveClusterAdminCommand a) = ''save_cluster_admin_user'' \<and>
   CommandName (AddPotentialServerCommand sv) = ''add_server'' \<and>
   CommandName (CreateContinuousQueryCommand db2 q) = ''create_cq'' \<and>
   CommandName (DeleteContinuousQueryCommand db3 i) = ''delete_cq'' \<and>
   CommandName (SetContinuousQueryTimestampCommand ts) = ''set_cq_ts'' \<and>
   CommandName (CreateShardsCommand shs) = ''create_shards'' \<and>
   CommandName (DropShardCommand sid ids) = ''drop_shard'' \<and>
   CommandName (InfluxJoinCommand n3 cs pcs) = ''raft:join'' \<and>
   distinct (map CommandName
     [CreateDatabaseCommand n1 rf, DropDatabaseCommand n2, SaveDbUserCommand u,
      ChangeDbUserPassword db1 un h, SaveClusterAdminCommand a, AddPotentialServerCommand sv,
      CreateContinuousQueryCommand db2 q, DeleteContinuousQueryCommand db3 i,
      SetContinuousQueryTimestampCommand ts, CreateShardsCommand shs,
      DropShardCommand sid ids, InfluxJoinCommand n3 cs pcs])"
  by simp

section \<open>The registry\<close>

text \<open>
  C3, as stated: after \<open>init\<close> the registry has an entry for the name of each of the
  twelve command types, \<open>raft:join\<close> included. It has none for \<open>raft:join\<close>: the slice that
  \<open>init\<close> ranges over does not list \<open>InfluxJoinCommand\<close>.
\<close>

theorem registry_lacks_join:
  "(internalRaftCommands :: string \<rightharpoonup> (unit, unit, unit, unit) command) ''raft:join'' = None"
  by (simp add: internalRaftCommands_def init_commands_def)

text \<open>
  C3, amended: after \<open>init\<close> the registry maps the name of each of the eleven metadata
  command types to the zero value of that command's own type, it has no other key, and
  the peer-join command's name \<open>raft:join\<close> is not a key.
\<close>

theorem registry_contents:
  "internalRaftCommands ''add_server'' = Some (AddPotentialServerCommand None) \<and>
   internalRaftCommands ''create_db'' = Some (CreateDatabaseCommand [] 0) \<and>
   internalRaftCommands ''drop_db'' = Some (DropDatabaseCommand []) \<and>
   internalRaftCommands ''save_db_user'' = Some (SaveDbUserCommand None) \<and>
   internalRaftCommands ''save_cluster_admin_user'' = Some (SaveClusterAdminCommand None) \<and>
   internalRaftCommands ''change_db_user_password'' = Some (ChangeDbUserPassword [] [] []) \<and>
   internalRaftCommands ''create_cq'' = Some (CreateContinuousQueryCommand [] []) \<and>
   internalRaftCommands ''delete_cq'' = Some (DeleteContinuousQueryCommand [] 0) \<and>
   internalRaftCommands ''set_cq_ts'' = Some (SetContinuousQueryTimestampCommand 0) \<and>
   internalRaftCommands ''create_shards'' = Some (CreateShardsCommand []) \<and>
   internalRaftCommands ''drop_shard'' = Some (DropShardCommand 0 []) \<and>
   dom internalRaftCommands =
     {''add_server'', ''create_db'', ''drop_db'', ''save_db_user'', ''save_cluster_admin_user'',
      ''change_db_user_password'', ''create_cq'', ''delete_cq'', ''set_cq_ts'',
      ''create_shards'', ''drop_shard''} \<and>
   internalRaftCommands (CommandName (InfluxJoinCommand n cs pcs)) = None"
  unfolding internalRaftCommands_def init_commands_def
  by (simp add: insert_commute)

section \<open>Determinism\<close>

text \<open>
  C1, as stated: for every command type, two runs of \<open>Apply\<close> on equal configurations with
  equal payloads return equal (result, error) values. The peer-join command returns the
  error of the engine's \<open>AddPeer\<close>, which the configuration does not determine: on two
  servers with the same configuration and the same name, one of whose engines has the
  peer already, an engine that refuses a second admission makes the two errors differ.
\<close>

theorem join_error_follows_engine:
  "Context sample_server = Context (sample_server\<lparr>Engine := [''node1'', ''node3'']\<rparr>) \<and>
   Name sample_server = Name (sample_server\<lparr>Engine := [''node1'', ''node3'']\<rparr>) \<and>
   snd (Apply SampleStore (InfluxJoinCommand ''node3'' ''host3:8090'' ''host3:8099'')
          sample_server) = Return (Bytes ''join'') None \<and>
   snd (Apply SampleStore (InfluxJoinCommand ''node3'' ''host3:8090'' ''host3:8099'')
          (sample_server\<lparr>Engine := [''node1'', ''node3'']\<rparr>)) =
     Return (Bytes ''join'') (Some ''peer already exists'')"
  by (simp add: sample_server_def SampleStore_def sample_AddPeer_def)

text \<open>
  C1, amended: for every command type, \<open>Apply\<close> is deterministic and does not depend on
  the applying node's name, on a clock or on randomness: two servers that hold equal
  configurations and are given the same command are left with equal configurations and
  return the same result value, whatever their names and whatever their debug logs
  hold. For the eleven metadata commands the error, or the panic, is the same too. The
  error of the peer-join command is the one the engine's \<open>AddPeer\<close> returns, so for that
  command the errors agree when the two engines are in the same state; the engines are
  then in the same state afterwards. The source reads no clock and no source of
  randomness, and the model has none.
\<close>

theorem Apply_deterministic:
  assumes "Context s1 = Context s2"
  shows "Context (fst (Apply X c s1)) = Context (fst (Apply X c s2)) \<and>
         result_of (snd (Apply X c s1)) = result_of (snd (Apply X c s2)) \<and>
         (\<not> is_join c \<or> Engine s1 = Engine s2 \<longrightarrow>
            snd (Apply X c s1) = snd (Apply X c s2)) \<and>
         (Engine s1 = Engine s2 \<longrightarrow>
            Engine (fst (Apply X c s1)) = Engine (fst (Apply X c s2)))"
  using assms
  by (cases c) (simp_all add: Let_def split: option.splits prod.splits)

theorem Apply_deterministic_witness:
  "Context sample_server =
     Context (sample_server\<lparr>Name := ''node2'', DebugLog := [(''started'', [])]\<rparr>) \<and>
   snd (Apply SampleStore (SaveDbUserCommand (Some (''metrics'', ''paul''))) sample_server) =
     snd (Apply SampleStore (SaveDbUserCommand (Some (''metrics'', ''paul'')))
            (sample_server\<lparr>Name := ''node2'', DebugLog := [(''started'', [])]\<rparr>)) \<and>
   Context (fst (Apply SampleStore (SaveDbUserCommand (Some (''metrics'', ''paul'')))
                   sample_server)) =
     Context (fst (Apply SampleStore (SaveDbUserCommand (Some (''metrics'', ''paul'')))
                     (sample_server\<lparr>Name := ''node2'', DebugLog := [(''started'', [])]\<rparr>))) \<and>
   DebugLog (fst (Apply SampleStore (SaveDbUserCommand (Some (''metrics'', ''paul'')))
                    sample_server)) \<noteq>
     DebugLog (fst (Apply SampleStore (SaveDbUserCommand (Some (''metrics'', ''paul'')))
                      (sample_server\<lparr>Name := ''node2'', DebugLog := [(''started'', [])]\<rparr>))) \<and>
   snd (Apply SampleStore (InfluxJoinCommand ''node3'' ''host3:8090'' ''host3:8099'')
          sample_server) =
     snd (Apply SampleStore (InfluxJoinCommand ''node3'' ''host3:8090'' ''host3:8099'')
            (sample_server\<lparr>Name := ''node2'', DebugLog := [(''started'', [])]\<rparr>))"
  using
    Apply_deterministic
      [where ?s1.0 = sample_server
         and ?s2.0 = "sample_server\<lparr>Name := ''node2'', DebugLog := [(''started'', [])]\<rparr>"
         and c = "SaveDbUserCommand (Some (''metrics'', ''paul''))" and X = SampleStore]
    Apply_deterministic
      [where ?s1.0 = sample_server
         and ?s2.0 = "sample_server\<lparr>Name := ''node2'', DebugLog := [(''started'', [])]\<rparr>"
         and c = "InfluxJoinCommand ''node3'' ''host3:8090'' ''host3:8099''"
         and X = SampleStore]
  by (simp add: sample_server_def)

section \<open>What Apply returns\<close>

text \<open>
  C4, as stated: every command type other than shard creation returns a nil result. The
  peer-join command returns the byte slice \<open>[]byte("join")\<close>.
\<close>

theorem join_result_not_nil:
  "result_of (snd (Apply SampleStore (InfluxJoinCommand ''node2'' ''host2:8090'' ''host2:8099'')
                     sample_server)) = Some (Bytes ''join'')"
  by (simp add: SampleStore_def sample_server_def sample_AddPeer_def)

text \<open>
  C4, amended: applied to a server whose context is the configuration, every command type
  other than shard creation and peer join returns a nil result (a \<open>SaveDbUserCommand\<close>
  with a nil \<open>User\<close> set aside); the peer-join command returns the byte slice \<open>join\<close>;
  shard creation returns nil when \<open>AddShards\<close> fails and otherwise the created shards,
  each converted by \<open>ToNewShardData\<close>.
\<close>

theorem Apply_result:
  assumes "Context s = Some cfg"
    and "c \<noteq> SaveDbUserCommand None"
  shows "result_of (snd (Apply X c s)) =
    (case c of
       InfluxJoinCommand n cs pcs \<Rightarrow> Some (Bytes ''join'')
     | CreateShardsCommand shs \<Rightarrow>
         (case AddShards X shs cfg of
            (cfg', created, err) \<Rightarrow>
              (case err of
                 None \<Rightarrow> Some (Shards (map (ToNewShardData X) created))
               | Some e \<Rightarrow> Some NilResult))
     | _ \<Rightarrow> Some NilResult)"
  using assms
  by (cases c)
     (simp_all add: Let_def append_created_map split: option.splits prod.splits)

theorem Apply_result_witness:
  "Context sample_server = Some sample_empty \<and>
   result_of (snd (Apply SampleStore (CreateDatabaseCommand ''metrics'' 2) sample_server)) =
     Some NilResult \<and>
   result_of (snd (Apply SampleStore (CreateShardsCommand [Some (1, [1, 2])]) sample_server)) =
     Some (Shards [Some (1, [1, 2])])"
  using
    Apply_result [where s = sample_server and cfg = sample_empty and X = SampleStore
      and c = "CreateDatabaseCommand ''metrics'' 2"]
    Apply_result [where s = sample_server and cfg = sample_empty and X = SampleStore
      and c = "CreateShardsCommand [Some (1, [1, 2])]"]
  by (simp add: sample_server_def SampleStore_def sample_AddShards_def)

section \<open>Errors of the configuration store\<close>

text \<open>
  C5, as stated: each of the seven commands calls its method and returns its error,
  never raising or aborting. Each starts with the unchecked type assertion
  \<open>server.Context().(*cluster.ClusterConfiguration)\<close>; on a server whose context is not
  the configuration the assertion panics and no method is called.
\<close>

theorem CreateDatabase_without_configuration_panics:
  "Apply SampleStore (CreateDatabaseCommand ''metrics'' 2) (sample_server\<lparr>Context := None\<rparr>) =
     (sample_server\<lparr>Context := None\<rparr>, Panic TypeAssertion)"
  by simp

text \<open>
  C5, amended: applied to a server whose context is the configuration, each of
  \<open>CreateDatabase\<close>, \<open>DropDatabase\<close>, \<open>ChangeDbUserPassword\<close>, \<open>CreateContinuousQuery\<close>,
  \<open>DeleteContinuousQuery\<close>, \<open>SetContinuousQueryTimestamp\<close> and \<open>DropShard\<close> calls its one
  method of the configuration with exactly its payload fields, leaves the configuration
  that call produced, and returns nil together with exactly the error of that call; it
  does not panic. \<open>ChangeDbUserPassword\<close> also writes one debug message.
\<close>

theorem Apply_returns_method_error:
  assumes "Context s = Some cfg"
  shows
    "Apply X (CreateDatabaseCommand n rf) s =
       (s\<lparr>Context := Some (fst (CreateDatabase X n rf cfg))\<rparr>,
        Return NilResult (snd (CreateDatabase X n rf cfg))) \<and>
     Apply X (DropDatabaseCommand n) s =
       (s\<lparr>Context := Some (fst (DropDatabase X n cfg))\<rparr>,
        Return NilResult (snd (DropDatabase X n cfg))) \<and>
     Apply X (ChangeDbUserPassword db username hash) s =
       (s\<lparr>Context := Some (fst (ChangeDbUserPasswordM X db username hash cfg)),
          DebugLog := DebugLog s @
            [(''(raft:%s) changing db user password for %s:%s'', [Name s, db, username])]\<rparr>,
        Return NilResult (snd (ChangeDbUserPasswordM X db username hash cfg))) \<and>
     Apply X (CreateContinuousQueryCommand db q) s =
       (s\<lparr>Context := Some (fst (CreateContinuousQuery X db q cfg))\<rparr>,
        Return NilResult (snd (CreateContinuousQuery X db q cfg))) \<and>
     Apply X (DeleteContinuousQueryCommand db i) s =
       (s\<lparr>Context := Some (fst (DeleteContinuousQuery X db i cfg))\<rparr>,
        Return NilResult (snd (DeleteContinuousQuery X db i cfg))) \<and>
     Apply X (SetContinuousQueryTimestampCommand ts) s =
       (s\<lparr>Context := Some (fst (SetContinuousQueryTimestamp X ts cfg))\<rparr>,
        Return NilResult (snd (SetContinuousQueryTimestamp X ts cfg))) \<and>
     Apply X (DropShardCommand sid ids) s =
       (s\<lparr>Context := Some (fst (DropShard X sid ids cfg))\<rparr>,
        Return NilResult (snd (DropShard X sid ids cfg)))"
  using assms
  by (simp add: Let_def split: prod.splits)

theorem Apply_returns_method_error_witness:
  "Context sample_server = Some sample_empty \<and>
   snd (Apply SampleStore (CreateDatabaseCommand ''metrics'' 2) sample_server) =
     Return NilResult None \<and>
   snd (Apply SampleStore (CreateDatabaseCommand ''metrics'' 2)
          (fst (Apply SampleStore (CreateDatabaseCommand ''metrics'' 2) sample_server))) =
     Return NilResult (Some ''database already exists'') \<and>
   snd (Apply SampleStore (DropShardCommand 7 []) sample_server) =
     Return NilResult (Some ''shard not found'')"
proof -
  have ctx: "Context sample_server = Some sample_empty"
    by (simp add: sample_server_def)
  have created: "Context (sample_server\<lparr>Context :=
        Some (fst (CreateDatabase SampleStore ''metrics'' 2 sample_empty))\<rparr>) =
      Some (fst (CreateDatabase SampleStore ''metrics'' 2 sample_empty))"
    by simp
  show ?thesis
    using ctx Apply_returns_method_error [OF ctx, where X = SampleStore]
      Apply_returns_method_error [OF created, where X = SampleStore]
    by (simp add: SampleStore_def sample_CreateDatabase_def sample_DropShard_def
        sample_empty_def)
qed

section \<open>Shard creation\<close>

text \<open>
  C7. \<open>CreateShardsCommand.Apply\<close> on a server whose context is the configuration: when
  \<open>AddShards\<close> returns an error, \<open>Apply\<close> returns nil and that error; when it succeeds,
  \<open>Apply\<close> returns the created shards, each converted by \<open>ToNewShardData\<close>, in the order
  \<open>AddShards\<close> produced them, and a nil error. In both cases the configuration is left
  exactly as \<open>AddShards\<close> left it, with no rollback and no further change: whatever
  all-or-none guarantee \<open>AddShards\<close> gives for its resulting configuration holds after
  \<open>Apply\<close>.
\<close>

theorem CreateShards_Apply:
  assumes "Context s = Some cfg"
    and "AddShards X shs cfg = (cfg', created, err)"
  shows
    "Context (fst (Apply X (CreateShardsCommand shs) s)) = Some cfg' \<and>
     snd (Apply X (CreateShardsCommand shs) s) =
       (case err of
          Some e \<Rightarrow> Return NilResult (Some e)
        | None \<Rightarrow> Return (Shards (map (ToNewShardData X) created)) None) \<and>
     (all_or_none cfg shs cfg' \<longrightarrow>
        (\<exists>c'. Context (fst (Apply X (CreateShardsCommand shs) s)) = Some c' \<and>
              all_or_none cfg shs c'))"
  using assms
  by (simp add: Let_def append_created_map split: option.splits)

theorem CreateShards_Apply_witness:
  "Context sample_server = Some sample_empty \<and>
   AddShards SampleStore [Some (1, [1, 2]), Some (2, [2, 3])] sample_empty =
     (sample_empty\<lparr>shards := [(1, [1, 2]), (2, [2, 3])]\<rparr>,
      [(1, [1, 2]), (2, [2, 3])], None) \<and>
   snd (Apply SampleStore (CreateShardsCommand [Some (1, [1, 2]), Some (2, [2, 3])])
          sample_server) =
     Return (Shards [Some (1, [1, 2]), Some (2, [2, 3])]) None \<and>
   AddShards SampleStore [Some (1, [1, 2]), None] sample_empty =
     (sample_empty, [], Some ''nil shard'') \<and>
   snd (Apply SampleStore (CreateShardsCommand [Some (1, [1, 2]), None]) sample_server) =
     Return NilResult (Some ''nil shard'') \<and>
   Context (fst (Apply SampleStore (CreateShardsCommand [Some (1, [1, 2]), None])
                   sample_server)) = Some sample_empty \<and>
   sample_all_or_none sample_empty [Some (1, [1, 2]), None] sample_empty"
proof -
  have ctx: "Context sample_server = Some sample_empty"
    by (simp add: sample_server_def)
  have ok: "AddShards SampleStore [Some (1, [1, 2]), Some (2, [2, 3])] sample_empty =
     (sample_empty\<lparr>shards := [(1, [1, 2]), (2, [2, 3])]\<rparr>,
      [(1, [1, 2]), (2, [2, 3])], None)"
    by (simp add: SampleStore_def sample_AddShards_def sample_empty_def)
  have failing: "AddShards SampleStore [Some (1, [1, 2]), None] sample_empty =
     (sample_empty, [], Some ''nil shard'')"
    by (simp add: SampleStore_def sample_AddShards_def)
  have atomic: "sample_all_or_none sample_empty [Some (1, [1, 2]), None] sample_empty"
    by (simp add: sample_all_or_none_def)
  show ?thesis
    using ctx ok failing atomic
      CreateShards_Apply [OF ctx ok, where all_or_none = sample_all_or_none]
      CreateShards_Apply [OF ctx failing, where all_or_none = sample_all_or_none]
    by (simp add: SampleStore_def)
qed

section \<open>Frame conditions\<close>

text \<open>
  C8. \<open>InfluxJoinCommand.Apply\<close> neither reads nor changes the configuration: its whole
  effect is one call of the engine's \<open>AddPeer\<close> with the command's \<open>Name\<close> and
  \<open>ConnectionString\<close>, whose error it returns (with the byte slice \<open>join\<close>); replacing
  the server's context by any other changes neither what is returned nor the engine, and
  the context comes back as it was given. No other command type changes the engine.
\<close>

theorem Join_Apply:
  "Apply X (InfluxJoinCommand n cs pcs) s =
     (s\<lparr>Engine := fst (AddPeer X n cs (Engine s))\<rparr>,
      Return (Bytes ''join'') (snd (AddPeer X n cs (Engine s)))) \<and>
   Apply X (InfluxJoinCommand n cs pcs) (s\<lparr>Context := ctx\<rparr>) =
     ((fst (Apply X (InfluxJoinCommand n cs pcs) s))\<lparr>Context := ctx\<rparr>,
      snd (Apply X (InfluxJoinCommand n cs pcs) s)) \<and>
   (\<not> is_join c \<longrightarrow> Engine (fst (Apply X c s)) = Engine s)"
  by (cases c) (simp_all add: Let_def split: option.splits prod.splits)

theorem Join_Apply_witness:
  "Apply SampleStore (InfluxJoinCommand ''node2'' ''host2:8090'' ''host2:8099'') sample_server =
     (sample_server\<lparr>Engine := [''node1'', ''node2'']\<rparr>, Return (Bytes ''join'') None) \<and>
   \<not> is_join (CreateDatabaseCommand ''metrics'' 2 :: (string \<times> string, string, nat,
        32 word \<times> 32 word list) command) \<and>
   Engine (fst (Apply SampleStore (CreateDatabaseCommand ''metrics'' 2) sample_server)) =
     [''node1'']"
  using Join_Apply [where X = SampleStore and s = sample_server and n = "''node2''"
      and cs = "''host2:8090''" and pcs = "''host2:8099''"
      and c = "CreateDatabaseCommand ''metrics'' 2"]
  by (simp add: SampleStore_def sample_AddPeer_def sample_server_def)

text \<open>
  C9. For every command but the peer-join command, \<open>Apply\<close> changes the configuration only
  by the one mutation the specification lists for that command: the configuration
  afterwards is the one that mutation produces from the configuration before (and there
  is none afterwards if there was none before), so every part of the configuration that
  the mutation leaves alone is unchanged; and \<open>Apply\<close> changes neither the engine nor the
  node's name.
\<close>

theorem metadata_Apply_frame:
  assumes "\<not> is_join c"
  shows
    "Context (fst (Apply X c s)) = map_option (target_mutation X c) (Context s) \<and>
     Engine (fst (Apply X c s)) = Engine s \<and>
     Name (fst (Apply X c s)) = Name s \<and>
     (Context s = Some cfg \<and> part (target_mutation X c cfg) = part cfg \<longrightarrow>
        map_option part (Context (fst (Apply X c s))) = Some (part cfg))"
  using assms
  by (cases c) (simp_all add: Let_def split: option.splits prod.splits)

theorem metadata_Apply_frame_witness:
  "\<not> is_join (CreateDatabaseCommand ''metrics'' 2 :: (string \<times> string, string, nat,
        32 word \<times> 32 word list) command) \<and>
   Context (fst (Apply SampleStore (CreateDatabaseCommand ''metrics'' 2) sample_server)) =
     Some (sample_empty\<lparr>databases := [(''metrics'', 2)]\<rparr>) \<and>
   Engine (fst (Apply SampleStore (CreateDatabaseCommand ''metrics'' 2) sample_server)) =
     [''node1''] \<and>
   map_option shards
     (Context (fst (Apply SampleStore (CreateDatabaseCommand ''metrics'' 2) sample_server))) =
     Some []"
  using metadata_Apply_frame [where X = SampleStore and s = sample_server
      and c = "CreateDatabaseCommand ''metrics'' 2" and cfg = sample_empty and part = shards]
  by (simp add: SampleStore_def sample_CreateDatabase_def sample_server_def sample_empty_def)

section \<open>Commands that return no error\<close>

text \<open>
  C10, as stated: \<open>SaveDbUserCommand.Apply\<close> returns (nil, nil) for every payload and every
  configuration. With a nil \<open>User\<close> it does not return: after \<open>SaveDbUser\<close> has been
  called, the arguments of the debug message read \<open>c.User.Db\<close> through the nil pointer.
\<close>

theorem SaveDbUser_nil_panics:
  "snd (Apply SampleStore (SaveDbUserCommand None) sample_server) = Panic NilDereference"
  by (simp add: sample_server_def)

text \<open>
  C10, amended: applied to a server whose context is the configuration,
  \<open>SaveClusterAdminCommand.Apply\<close> and \<open>AddPotentialServerCommand.Apply\<close> return (nil, nil)
  for every payload and every configuration, and \<open>SaveDbUserCommand.Apply\<close> does so for
  every payload whose \<open>User\<close> is not nil: the three call \<open>SaveClusterAdmin\<close>,
  \<open>AddPotentialServer\<close> and \<open>SaveDbUser\<close> without binding an error, so none of them
  returns one.
\<close>

theorem Save_commands_return_nil_nil:
  assumes "Context s = Some cfg"
  shows
    "snd (Apply X (SaveDbUserCommand (Some u)) s) = Return NilResult None \<and>
     Context (fst (Apply X (SaveDbUserCommand (Some u)) s)) =
       Some (SaveDbUser X (Some u) cfg) \<and>
     Apply X (SaveClusterAdminCommand a) s =
       (s\<lparr>Context := Some (SaveClusterAdmin X a cfg)\<rparr>, Return NilResult None) \<and>
     Apply X (AddPotentialServerCommand sv) s =
       (s\<lparr>Context := Some (AddPotentialServer X sv cfg)\<rparr>, Return NilResult None)"
  using assms
  by (simp add: Let_def)

theorem Save_commands_return_nil_nil_witness:
  "Context sample_server = Some sample_empty \<and>
   snd (Apply SampleStore (SaveDbUserCommand (Some (''metrics'', ''paul''))) sample_server) =
     Return NilResult None \<and>
   snd (Apply SampleStore (SaveClusterAdminCommand None) sample_server) =
     Return NilResult None \<and>
   snd (Apply SampleStore (AddPotentialServerCommand (Some 2)) sample_server) =
     Return NilResult None"
proof -
  have ctx: "Context sample_server = Some sample_empty"
    by (simp add: sample_server_def)
  show ?thesis
    using ctx Save_commands_return_nil_nil [OF ctx, where X = SampleStore]
    by simp
qed

end
